theory Spec2Isabelle
  imports Complex_Main "HOL-Library.Sublist" "HOL-Library.Product_Lexorder"
begin

section \<open>CineRecommend: the data tables and the API models\<close>

text \<open>
  The repository keeps two pandas tables in module-level globals of
  \<^verbatim>\<open>src/api/main.py\<close>: \<^verbatim>\<open>movies_df\<close> (columns movieId, title, genres) and
  \<^verbatim>\<open>ratings_df\<close> (columns userId, movieId, rating, timestamp). Both start as
  \<^verbatim>\<open>None\<close> and are filled by \<^verbatim>\<open>DataManager.load_data\<close>. A table is a list
  of rows in index order; a global that is \<^verbatim>\<open>None\<close> is \<open>None\<close>. A title cell
  may be missing (NaN), which is \<open>None\<close> in the row. Python floats are idealised
  as reals.
\<close>

record movie_row =
  m_movieId :: int
  m_title :: "string option"
  m_genres :: string

record rating_row =
  r_userId :: int
  r_movieId :: int
  r_rating :: real
  r_timestamp :: int

record app_state =
  movies_df :: "movie_row list option"
  ratings_df :: "rating_row list option"

text \<open>The pydantic models \<^verbatim>\<open>Movie\<close>, \<^verbatim>\<open>Rating\<close> and \<^verbatim>\<open>Recommendation\<close>.\<close>

record Movie =
  movie_movieId :: int
  movie_title :: string
  movie_genres :: string
  movie_year :: "int option"
  movie_rating :: "real option"

record Rating =
  userId :: int
  movieId :: int
  rating :: real
  timestamp :: "int option"

record Recommendation =
  rec_movieId :: int
  rec_title :: string
  rec_genres :: string
  score :: real
  reason :: string

text \<open>
  Every way an operation can fail: an \<^verbatim>\<open>HTTPException\<close> with its status code,
  a pydantic/FastAPI validation failure, the \<^verbatim>\<open>ValueError\<close> of
  \<^verbatim>\<open>np.random.seed\<close>, and \<^verbatim>\<open>re.error\<close> from compiling a search pattern.
\<close>

datatype error = HTTPException nat | ValidationError | ValueError | ReError

section \<open>Adding a rating (\<^verbatim>\<open>POST /ratings\<close>)\<close>

text \<open>
  \<^verbatim>\<open>rating: float = Field(..., ge=0.5, le=5.0)\<close> is the only constraint of the
  \<^verbatim>\<open>Rating\<close> model; \<^verbatim>\<open>userId\<close> and \<^verbatim>\<open>movieId\<close> are plain \<^verbatim>\<open>int\<close>.
\<close>

definition Rating_validate :: "Rating \<Rightarrow> error + Rating" where
  "Rating_validate r =
     (if 0.5 \<le> rating r \<and> rating r \<le> 5.0 then Inr r else Inl ValidationError)"

text \<open>
  \<^verbatim>\<open>add_rating\<close>, on a validated \<^verbatim>\<open>Rating\<close>. \<open>now\<close> is \<^verbatim>\<open>int(time.time())\<close>.
  \<^verbatim>\<open>rating.timestamp or int(time.time())\<close> takes the clock when the timestamp
  is \<^verbatim>\<open>None\<close> and also when it is \<open>0\<close>, which is falsy in Python. The new row
  goes to the end of \<^verbatim>\<open>ratings_df\<close> (\<^verbatim>\<open>pd.concat(..., ignore_index=True)\<close>).
\<close>

definition new_rating :: "int \<Rightarrow> Rating \<Rightarrow> rating_row" where
  "new_rating now r =
     \<lparr>r_userId = userId r, r_movieId = movieId r, r_rating = rating r,
      r_timestamp = (case timestamp r of None \<Rightarrow> now
                     | Some t \<Rightarrow> if t = 0 then now else t)\<rparr>"

definition movie_exists :: "movie_row list \<Rightarrow> int \<Rightarrow> bool" where
  "movie_exists ms mid = (mid \<in> set (map m_movieId ms))"

definition add_rating :: "int \<Rightarrow> app_state \<Rightarrow> Rating \<Rightarrow> (error + rating_row) \<times> app_state" where
  "add_rating now st r =
     (case ratings_df st of
        None \<Rightarrow> (Inl (HTTPException 500), st)
      | Some rs \<Rightarrow>
          if (case movies_df st of None \<Rightarrow> False
              | Some ms \<Rightarrow> \<not> movie_exists ms (movieId r))
          then (Inl (HTTPException 404), st)
          else (Inr (new_rating now r),
                st\<lparr>ratings_df := Some (rs @ [new_rating now r])\<rparr>))"

text \<open>
  The whole endpoint: FastAPI validates the body against \<^verbatim>\<open>Rating\<close> before the
  handler runs, and a body that fails never reaches \<^verbatim>\<open>add_rating\<close>.
\<close>

definition post_ratings :: "int \<Rightarrow> app_state \<Rightarrow> Rating \<Rightarrow> (error + rating_row) \<times> app_state" where
  "post_ratings now st body =
     (case Rating_validate body of
        Inl e \<Rightarrow> (Inl e, st)
      | Inr r \<Rightarrow> add_rating now st r)"

text \<open>A small catalogue and rating table used to run the operations.\<close>

definition demo_movies :: "movie_row list" where
  "demo_movies =
     [\<lparr>m_movieId = 1, m_title = Some ''Toy Story (1995)'', m_genres = ''Adventure|Comedy''\<rparr>,
      \<lparr>m_movieId = 2, m_title = Some ''Heat (1995)'', m_genres = ''Action|Thriller''\<rparr>]"

definition demo_ratings :: "rating_row list" where
  "demo_ratings =
     [\<lparr>r_userId = 1, r_movieId = 1, r_rating = 5, r_timestamp = 964982703\<rparr>,
      \<lparr>r_userId = 2, r_movieId = 1, r_rating = 4, r_timestamp = 964982703\<rparr>,
      \<lparr>r_userId = 2, r_movieId = 2, r_rating = 5, r_timestamp = 964982703\<rparr>]"

definition other_ratings :: "rating_row list" where
  "other_ratings =
     [\<lparr>r_userId = 1, r_movieId = 2, r_rating = 5, r_timestamp = 964982703\<rparr>,
      \<lparr>r_userId = 2, r_movieId = 2, r_rating = 4, r_timestamp = 964982703\<rparr>,
      \<lparr>r_userId = 2, r_movieId = 1, r_rating = 5, r_timestamp = 964982703\<rparr>]"

definition demo_state :: app_state where
  "demo_state = \<lparr>movies_df = Some demo_movies, ratings_df = Some demo_ratings\<rparr>"

section \<open>The random generator behind the simulated recommendations\<close>

text \<open>
  Both recommendation paths draw from numpy's process-wide generator
  (\<^verbatim>\<open>np.random\<close>), which is library code. Its state is threaded through the
  model as a value of type \<open>'g\<close>, and the four library calls the source makes
  are the fields of a record:
  \<^item> \<^verbatim>\<open>np.random.seed(s)\<close>, for \<open>0 \<le> s < 2^32\<close> (any other \<open>s\<close> raises
    \<^verbatim>\<open>ValueError\<close>, which is modelled at the call);
  \<^item> \<^verbatim>\<open>permutation(n)\<close>, from which \<^verbatim>\<open>DataFrame.sample(k)\<close> takes the first
    \<open>k\<close> positions (\<^verbatim>\<open>choice(n, size=k, replace=False)\<close>);
  \<^item> \<^verbatim>\<open>np.random.random()\<close>, a draw from \<open>[0, 1)\<close>;
  \<^item> \<^verbatim>\<open>randint(0, n)\<close>, the index drawn by \<^verbatim>\<open>np.random.choice\<close> on a list
    of \<open>n\<close> elements.
\<close>

record 'g np_random =
  np_seed :: "nat \<Rightarrow> 'g"
  np_permutation :: "nat \<Rightarrow> 'g \<Rightarrow> nat list \<times> 'g"
  np_random_sample :: "'g \<Rightarrow> real \<times> 'g"
  np_randint :: "nat \<Rightarrow> 'g \<Rightarrow> nat \<times> 'g"

text \<open>
  What numpy guarantees about the values drawn. The results that depend on
  which rows or which reason were drawn assume it; outside it the positions
  drawn need not lie in the table.
\<close>

definition np_random_ok :: "'g np_random \<Rightarrow> bool" where
  "np_random_ok R =
     ((\<forall>n g. length (fst (np_permutation R n g)) = n
             \<and> set (fst (np_permutation R n g)) = {0..<n})
    \<and> (\<forall>g. 0 \<le> fst (np_random_sample R g) \<and> fst (np_random_sample R g) < 1)
    \<and> (\<forall>n g. 0 < n \<longrightarrow> fst (np_randint R n g) < n))"

text \<open>
  A deterministic stand-in for the generator, whose state is a counter. It
  meets \<open>np_random_ok\<close> and serves to run the operations on concrete inputs.
\<close>

definition counter_rng :: "nat np_random" where
  "counter_rng =
     \<lparr>np_seed = (\<lambda>s. s),
      np_permutation = (\<lambda>n g. (if even g then [0..<n] else rev [0..<n], Suc g)),
      np_random_sample = (\<lambda>g. (real (g div 4 mod 4) / 4, Suc g)),
      np_randint = (\<lambda>n g. (g mod n, Suc g))\<rparr>"

text \<open>\<^verbatim>\<open>DataFrame.sample(k)\<close>: the rows at the first \<open>k\<close> positions of a permutation.\<close>

definition DataFrame_sample :: "'g np_random \<Rightarrow> nat \<Rightarrow> 'a list \<Rightarrow> 'g \<Rightarrow> 'a list \<times> 'g" where
  "DataFrame_sample R k rows g =
     (case np_permutation R (length rows) g of
        (p, g') \<Rightarrow> (map (\<lambda>i. rows ! i) (take k p), g'))"

text \<open>\<^verbatim>\<open>np.random.uniform(low, high)\<close> is \<open>low + (high - low) * random()\<close>.\<close>

definition np_uniform :: "'g np_random \<Rightarrow> real \<Rightarrow> real \<Rightarrow> 'g \<Rightarrow> real \<times> 'g" where
  "np_uniform R low high g =
     (case np_random_sample R g of (u, g') \<Rightarrow> (low + (high - low) * u, g'))"

section \<open>Recommendations of the API (\<^verbatim>\<open>GET /recommend/user/{user_id}\<close>)\<close>

text \<open>
  Constructing a \<^verbatim>\<open>Recommendation\<close> validates it: \<^verbatim>\<open>title: str\<close> rejects a
  missing title (NaN is a float; this is the behaviour of pydantic 2, the
  release that goes with the pandas 2 the launcher asks for), and
  \<^verbatim>\<open>score: float = Field(..., ge=0.0, le=1.0)\<close> rejects a score outside
  \<open>[0, 1]\<close>.
\<close>

definition Recommendation_validate ::
    "int \<Rightarrow> string option \<Rightarrow> string \<Rightarrow> real \<Rightarrow> string \<Rightarrow> error + Recommendation" where
  "Recommendation_validate mid title genres sc why =
     (case title of
        None \<Rightarrow> Inl ValidationError
      | Some t \<Rightarrow>
          if 0 \<le> sc \<and> sc \<le> 1
          then Inr \<lparr>rec_movieId = mid, rec_title = t, rec_genres = genres,
                    score = sc, reason = why\<rparr>
          else Inl ValidationError)"

text \<open>The five reason texts of the source, with their accents dropped.\<close>

definition reasons :: "string list" where
  "reasons =
     [''Base sur vos films preferes'',
      ''Populaire parmi les utilisateurs similaires'',
      ''Nouveau film tendance'',
      ''Correspond a vos genres favoris'',
      ''Recommande par notre IA'']"

text \<open>
  The loop over the sampled rows. Each turn draws the score
  \<open>0.5 + 0.4 * random()\<close>, then the reason, then constructs the
  \<^verbatim>\<open>Recommendation\<close>; a validation failure ends the loop.
\<close>

fun simulate_recommendations ::
    "'g np_random \<Rightarrow> movie_row list \<Rightarrow> 'g \<Rightarrow> (error + Recommendation list) \<times> 'g" where
  "simulate_recommendations R [] g = (Inr [], g)"
| "simulate_recommendations R (m # ms) g =
     (case np_random_sample R g of
        (u, g1) \<Rightarrow>
          (case np_randint R (length reasons) g1 of
             (i, g2) \<Rightarrow>
               (case Recommendation_validate (m_movieId m) (m_title m) (m_genres m)
                       (0.5 + 0.4 * u) (reasons ! i) of
                  Inl e \<Rightarrow> (Inl e, g2)
                | Inr r \<Rightarrow>
                    (case simulate_recommendations R ms g2 of
                       (Inl e, g3) \<Rightarrow> (Inl e, g3)
                     | (Inr rs, g3) \<Rightarrow> (Inr (r # rs), g3)))))"

text \<open>
  \<^verbatim>\<open>recommendations.sort(key=lambda x: x.score, reverse=True)\<close>: Python's sort
  is stable also with \<^verbatim>\<open>reverse=True\<close>, so entries with equal scores keep their
  order; that is a stable sort on the negated score.
\<close>

definition sort_by_score_desc :: "Recommendation list \<Rightarrow> Recommendation list" where
  "sort_by_score_desc recs = sort_key (\<lambda>r. - score r) recs"

text \<open>
  The list \<^verbatim>\<open>recommendations\<close> as the loop leaves it, before the sort. The
  query parameter \<^verbatim>\<open>n_recommendations\<close> is validated (\<open>ge=1, le=50\<close>) before
  the handler runs. The handler looks the user up in \<^verbatim>\<open>ratings_df\<close> only to
  write a log line (``Nouvel utilisateur ... recommandations populaires''), so
  the rating table has no part in the result. \<^verbatim>\<open>np.random.seed(user_id)\<close>
  raises \<^verbatim>\<open>ValueError\<close> unless \<open>0 \<le> user_id < 2^32\<close>.
\<close>

definition recommendations_unsorted ::
    "'g np_random \<Rightarrow> 'g \<Rightarrow> app_state \<Rightarrow> int \<Rightarrow> int \<Rightarrow> (error + Recommendation list) \<times> 'g" where
  "recommendations_unsorted R g st user_id n_recommendations =
     (if n_recommendations < 1 \<or> 50 < n_recommendations then (Inl ValidationError, g)
      else case movies_df st of
        None \<Rightarrow> (Inl (HTTPException 500), g)
      | Some ms \<Rightarrow>
          if user_id < 0 \<or> 2 ^ 32 \<le> user_id then (Inl ValueError, g)
          else (case DataFrame_sample R (min (nat n_recommendations) (length ms)) ms
                       (np_seed R (nat user_id)) of
                  (sample_movies, g1) \<Rightarrow> simulate_recommendations R sample_movies g1))"

definition get_user_recommendations ::
    "'g np_random \<Rightarrow> 'g \<Rightarrow> app_state \<Rightarrow> int \<Rightarrow> int \<Rightarrow> (error + Recommendation list) \<times> 'g" where
  "get_user_recommendations R g st user_id n_recommendations =
     (case recommendations_unsorted R g st user_id n_recommendations of
        (Inl e, g') \<Rightarrow> (Inl e, g')
      | (Inr recs, g') \<Rightarrow> (Inr (sort_by_score_desc recs), g'))"

section \<open>Recommendations of the dashboard (\<^verbatim>\<open>CineRecommendApp.get_recommendations\<close>)\<close>

text \<open>
  The dashboard returns plain dictionaries and never seeds the generator.
  \<^verbatim>\<open>n_recommendations\<close> comes from a slider over \<open>1..20\<close>.
\<close>

record app_recommendation =
  ar_title :: "string option"
  ar_genres :: string
  ar_score :: real
  ar_reason :: string

fun app_simulate ::
    "'g np_random \<Rightarrow> movie_row list \<Rightarrow> 'g \<Rightarrow> app_recommendation list \<times> 'g" where
  "app_simulate R [] g = ([], g)"
| "app_simulate R (m # ms) g =
     (case np_uniform R 0.7 0.95 g of
        (sc, g1) \<Rightarrow>
          (case app_simulate R ms g1 of
             (rs, g2) \<Rightarrow>
               (\<lparr>ar_title = m_title m, ar_genres = m_genres m, ar_score = sc,
                  ar_reason = ''Base sur vos preferences''\<rparr> # rs, g2)))"

definition get_recommendations ::
    "'g np_random \<Rightarrow> 'g \<Rightarrow> movie_row list option \<Rightarrow> nat \<Rightarrow> app_recommendation list \<times> 'g" where
  "get_recommendations R g mdf n_recommendations =
     (case mdf of
        None \<Rightarrow> ([], g)
      | Some ms \<Rightarrow>
          (case DataFrame_sample R (min n_recommendations (length ms)) ms g of
             (sample_movies, g1) \<Rightarrow>
               (case app_simulate R sample_movies g1 of
                  (recs, g2) \<Rightarrow> (sort_key (\<lambda>r. - ar_score r) recs, g2))))"

text \<open>
  The popularity ranking in the words of the spec (``the n globally most-rated
  items''), to compare the answer of the endpoint with; no function of the
  source computes it. Items are ranked by their number of ratings, most first,
  equal counts by ascending movieId.
\<close>

definition spec_most_rated :: "rating_row list \<Rightarrow> nat \<Rightarrow> int list" where
  "spec_most_rated rs n =
     take n (sort_key (\<lambda>m. (- int (count_list (map r_movieId rs) m), m))
               (remdups (map r_movieId rs)))"



section \<open>Searching movies by title (\<^verbatim>\<open>GET /movies/search\<close>)\<close>

text \<open>
  Both search functions call
  \<^verbatim>\<open>movies_df['title'].str.contains(query, case=False, na=False)\<close>. The call
  leaves \<^verbatim>\<open>regex\<close> at its default \<^verbatim>\<open>True\<close>, so pandas compiles the query with
  \<^verbatim>\<open>re.compile(query, re.IGNORECASE)\<close> and keeps the titles in which
  \<^verbatim>\<open>search\<close> finds a match. Python's \<^verbatim>\<open>re\<close> is library code; the model
  covers the patterns built from ordinary characters, the dot and parentheses:
  \<^item> an ordinary character matches itself, in either case (ASCII letters);
  \<^item> \<^verbatim>\<open>.\<close> matches any character but a newline;
  \<^item> parentheses group and match nothing themselves; when they are not
    balanced, \<^verbatim>\<open>re.compile\<close> raises \<^verbatim>\<open>re.error\<close>.
  A pattern that holds any other operator of \<^verbatim>\<open>re\<close> is handed to the
  parameter \<open>re_full\<close>, which stands for the rest of the library. Titles and
  queries are taken to be ASCII text.
\<close>

definition ascii_lower :: "char \<Rightarrow> char" where
  "ascii_lower c =
     (case map_of (zip ''ABCDEFGHIJKLMNOPQRSTUVWXYZ'' ''abcdefghijklmnopqrstuvwxyz'') c of
        None \<Rightarrow> c
      | Some l \<Rightarrow> l)"

definition re_operators :: "char list" where
  "re_operators = CHR 0x5C # ''^$*+?{}[]|''"

fun paren_depth :: "nat \<Rightarrow> string \<Rightarrow> nat option" where
  "paren_depth d [] = Some d"
| "paren_depth d (c # cs) =
     (if c = CHR ''('' then paren_depth (Suc d) cs
      else if c = CHR '')'' then (case d of 0 \<Rightarrow> None | Suc d' \<Rightarrow> paren_depth d' cs)
      else paren_depth d cs)"

fun match_here :: "string \<Rightarrow> string \<Rightarrow> bool" where
  "match_here [] s = True"
| "match_here (p # ps) [] = False"
| "match_here (p # ps) (c # cs) =
     ((if p = CHR ''.'' then c \<noteq> CHR 0x0A else p = c) \<and> match_here ps cs)"

fun re_search :: "string \<Rightarrow> string \<Rightarrow> bool" where
  "re_search ps [] = match_here ps []"
| "re_search ps (c # cs) = (match_here ps (c # cs) \<or> re_search ps cs)"

definition re_compile_ignorecase ::
    "(string \<Rightarrow> error + (string \<Rightarrow> bool)) \<Rightarrow> string \<Rightarrow> error + (string \<Rightarrow> bool)" where
  "re_compile_ignorecase re_full pat =
     (if list_ex (\<lambda>c. c \<in> set re_operators) pat then re_full pat
      else if paren_depth 0 pat \<noteq> Some 0 then Inl ReError
      else Inr (\<lambda>s. re_search
                  (map ascii_lower (filter (\<lambda>c. c \<noteq> CHR ''('' \<and> c \<noteq> CHR '')'') pat))
                  (map ascii_lower s)))"

text \<open>\<^verbatim>\<open>Series.str.contains(pat, case=False, na=False)\<close>: a missing cell gives \<^verbatim>\<open>False\<close>.\<close>

definition str_contains ::
    "(string \<Rightarrow> error + (string \<Rightarrow> bool)) \<Rightarrow> string option list \<Rightarrow> string \<Rightarrow> error + bool list" where
  "str_contains re_full cells pat =
     (case re_compile_ignorecase re_full pat of
        Inl e \<Rightarrow> Inl e
      | Inr found \<Rightarrow>
          Inr (map (\<lambda>cell. case cell of None \<Rightarrow> False | Some s \<Rightarrow> found s) cells))"

text \<open>\<^verbatim>\<open>movies_df[mask]\<close>: the rows whose mask entry is true, in table order.\<close>

definition select_rows :: "'a list \<Rightarrow> bool list \<Rightarrow> 'a list" where
  "select_rows rows keep = map fst (filter snd (zip rows keep))"

text \<open>The mean rating of a movie, \<^verbatim>\<open>None\<close> when it has no rating.\<close>

definition avg_rating :: "rating_row list option \<Rightarrow> int \<Rightarrow> real option" where
  "avg_rating rdf mid =
     (case rdf of
        None \<Rightarrow> None
      | Some rs \<Rightarrow>
          (case map r_rating (filter (\<lambda>r. r_movieId r = mid) rs) of
             [] \<Rightarrow> None
           | x # xs \<Rightarrow> Some (sum_list (x # xs) / real (length (x # xs)))))"

text \<open>
  Constructing a \<^verbatim>\<open>Movie\<close> for a search result: the title must be a string,
  \<^verbatim>\<open>year\<close> is left at its default.
\<close>

definition Movie_validate :: "int \<Rightarrow> string option \<Rightarrow> string \<Rightarrow> real option \<Rightarrow> error + Movie" where
  "Movie_validate mid title genres avg =
     (case title of
        None \<Rightarrow> Inl ValidationError
      | Some t \<Rightarrow> Inr \<lparr>movie_movieId = mid, movie_title = t, movie_genres = genres,
                       movie_year = None, movie_rating = avg\<rparr>)"

fun build_movies :: "rating_row list option \<Rightarrow> movie_row list \<Rightarrow> error + Movie list" where
  "build_movies rdf [] = Inr []"
| "build_movies rdf (m # ms) =
     (case Movie_validate (m_movieId m) (m_title m) (m_genres m) (avg_rating rdf (m_movieId m)) of
        Inl e \<Rightarrow> Inl e
      | Inr x \<Rightarrow> (case build_movies rdf ms of Inl e \<Rightarrow> Inl e | Inr xs \<Rightarrow> Inr (x # xs)))"

text \<open>
  \<^verbatim>\<open>search_movies\<close> of the API. The query parameters are validated first
  (\<^verbatim>\<open>min_length=1\<close>; \<^verbatim>\<open>ge=1, le=50\<close>).
\<close>

definition search_movies ::
    "(string \<Rightarrow> error + (string \<Rightarrow> bool)) \<Rightarrow> app_state \<Rightarrow> string \<Rightarrow> int \<Rightarrow> error + Movie list" where
  "search_movies re_full st query limit =
     (if query = [] \<or> limit < 1 \<or> 50 < limit then Inl ValidationError
      else case movies_df st of
        None \<Rightarrow> Inl (HTTPException 500)
      | Some ms \<Rightarrow>
          (case str_contains re_full (map m_title ms) query of
             Inl e \<Rightarrow> Inl e
           | Inr keep \<Rightarrow> build_movies (ratings_df st) (take (nat limit) (select_rows ms keep))))"

text \<open>\<^verbatim>\<open>CineRecommendApp.search_movies\<close> of the dashboard: no limit, rows as they are.\<close>

definition app_search_movies ::
    "(string \<Rightarrow> error + (string \<Rightarrow> bool)) \<Rightarrow> movie_row list option \<Rightarrow> string \<Rightarrow> error + movie_row list" where
  "app_search_movies re_full mdf query =
     (case mdf of
        None \<Rightarrow> Inr []
      | Some ms \<Rightarrow>
          if query = [] then Inr []
          else (case str_contains re_full (map m_title ms) query of
                  Inl e \<Rightarrow> Inl e
                | Inr keep \<Rightarrow> Inr (select_rows ms keep)))"

text \<open>
  The test of the search in the words of the spec: the title contains the
  query as a substring, letter case apart, and a missing title never matches.
  A query is plain when it holds none of the characters that \<^verbatim>\<open>re\<close> reads
  as operators.
\<close>

definition spec_title_contains :: "string \<Rightarrow> movie_row \<Rightarrow> bool" where
  "spec_title_contains query m =
     (case m_title m of
        None \<Rightarrow> False
      | Some t \<Rightarrow> sublist (map ascii_lower query) (map ascii_lower t))"

definition plain_query :: "string \<Rightarrow> bool" where
  "plain_query query =
     (\<not> list_ex (\<lambda>c. c \<in> set re_operators \<or> c = CHR ''.'' \<or> c = CHR ''('' \<or> c = CHR '')'') query)"

section \<open>The content-based model's \<^verbatim>\<open>recommendSimilar\<close>\<close>

text \<open>
  Modelled from the spec: the content-based model of \<^verbatim>\<open>src/models/content_based_filtering.py\<close>,
  a module that \<^verbatim>\<open>quick_start.py\<close> imports and that is missing from the
  sources at hand. A model is unfit until \<^verbatim>\<open>fit\<close> has run; its fitted state is
  the item index (the movieIds seen at fit time, in index order) and the
  item-to-item similarity, read here through the movieIds. Section 4.3:
  \<^verbatim>\<open>recommendSimilar(movieId, n)\<close> ``returns the n items most similar to the
  given item, excluding itself, ties broken by ascending movieId. Fails with
  UnknownItemError if movieId was not present at fit time''; section 4.2 and 7:
  any query before \<^verbatim>\<open>fit\<close> fails with \<^verbatim>\<open>NotFittedError\<close>.
\<close>

datatype engine_error = NotFittedError | UnknownItemError

record cb_fitted =
  cb_items :: "int list"
  cb_similarity :: "int \<Rightarrow> int \<Rightarrow> real"

datatype cb_model = CB_Unfit | CB_Fitted cb_fitted

definition recommendSimilar :: "cb_model \<Rightarrow> int \<Rightarrow> nat \<Rightarrow> engine_error + (int \<times> real) list" where
  "recommendSimilar model m n =
     (case model of
        CB_Unfit \<Rightarrow> Inl NotFittedError
      | CB_Fitted s \<Rightarrow>
          if m \<in> set (cb_items s)
          then Inr (take n (sort_key (\<lambda>(i, sim). (- sim, i))
                     (map (\<lambda>i. (i, cb_similarity s m i))
                        (filter (\<lambda>i. i \<noteq> m) (cb_items s)))))
          else Inl UnknownItemError)"

text \<open>A fitted model over three movies, to run \<^verbatim>\<open>recommendSimilar\<close>.\<close>

definition demo_cb :: cb_fitted where
  "demo_cb =
     \<lparr>cb_items = [1, 2, 3],
      cb_similarity = (\<lambda>a b. if a = b then 1 else if a + b = 4 then 1 / 2 else 1 / 4)\<rparr>"

section \<open>Properties of adding a rating\<close>

lemma demo_state_simps:
  "movies_df demo_state = Some demo_movies"
  "ratings_df demo_state = Some demo_ratings"
  by (simp_all add: demo_state_def)

text \<open>
  Claim C9. With both tables loaded, a rating whose movieId is not in the movie
  table fails with status 404 and leaves the state as it was; otherwise
  exactly one row is appended at the end of the rating table and nothing else
  changes. The row carries the submitted user, movie and value; its timestamp
  is the clock when none was submitted, and the submitted one otherwise,
  except that a submitted 0 is falsy for \<^verbatim>\<open>or\<close> and gives the clock as well.
\<close>

theorem add_rating_404_or_append:
  assumes "movies_df st = Some ms" and "ratings_df st = Some rs"
  shows "(movieId r \<notin> set (map m_movieId ms) \<longrightarrow>
            add_rating now st r = (Inl (HTTPException 404), st))
       \<and> (movieId r \<in> set (map m_movieId ms) \<longrightarrow>
            add_rating now st r =
              (Inr \<lparr>r_userId = userId r, r_movieId = movieId r, r_rating = rating r,
                     r_timestamp = (case timestamp r of None \<Rightarrow> now
                                    | Some t \<Rightarrow> if t = 0 then now else t)\<rparr>,
               st\<lparr>ratings_df := Some (rs @
                 [\<lparr>r_userId = userId r, r_movieId = movieId r, r_rating = rating r,
                    r_timestamp = (case timestamp r of None \<Rightarrow> now
                                   | Some t \<Rightarrow> if t = 0 then now else t)\<rparr>])\<rparr>)
          \<and> ratings_df (snd (add_rating now st r)) = Some (rs @
                 [\<lparr>r_userId = userId r, r_movieId = movieId r, r_rating = rating r,
                    r_timestamp = (case timestamp r of None \<Rightarrow> now
                                   | Some t \<Rightarrow> if t = 0 then now else t)\<rparr>])
          \<and> movies_df (snd (add_rating now st r)) = Some ms)"
  using assms by (simp add: add_rating_def new_rating_def movie_exists_def)

theorem add_rating_404_or_append_witness:
  "add_rating 1700000000 demo_state
      \<lparr>userId = 3, movieId = 99, rating = 4, timestamp = None\<rparr>
     = (Inl (HTTPException 404), demo_state)
   \<and> add_rating 1700000000 demo_state
      \<lparr>userId = 3, movieId = 2, rating = 4, timestamp = None\<rparr>
     = (Inr \<lparr>r_userId = 3, r_movieId = 2, r_rating = 4, r_timestamp = 1700000000\<rparr>,
        \<lparr>movies_df = Some demo_movies, ratings_df = Some (demo_ratings @
          [\<lparr>r_userId = 3, r_movieId = 2, r_rating = 4, r_timestamp = 1700000000\<rparr>])\<rparr>)
   \<and> add_rating 1700000000 demo_state
      \<lparr>userId = 3, movieId = 2, rating = 4, timestamp = Some 964982999\<rparr>
     = (Inr \<lparr>r_userId = 3, r_movieId = 2, r_rating = 4, r_timestamp = 964982999\<rparr>,
        \<lparr>movies_df = Some demo_movies, ratings_df = Some (demo_ratings @
          [\<lparr>r_userId = 3, r_movieId = 2, r_rating = 4, r_timestamp = 964982999\<rparr>])\<rparr>)
   \<and> add_rating 1700000000 demo_state
      \<lparr>userId = 3, movieId = 2, rating = 4, timestamp = Some 0\<rparr>
     = (Inr \<lparr>r_userId = 3, r_movieId = 2, r_rating = 4, r_timestamp = 1700000000\<rparr>,
        \<lparr>movies_df = Some demo_movies, ratings_df = Some (demo_ratings @
          [\<lparr>r_userId = 3, r_movieId = 2, r_rating = 4, r_timestamp = 1700000000\<rparr>])\<rparr>)"
proof -
  have ids: "map m_movieId demo_movies = [1, 2]" by (simp add: demo_movies_def)
  show ?thesis
    using add_rating_404_or_append
      [OF demo_state_simps, of "\<lparr>userId = 3, movieId = 99, rating = 4, timestamp = None\<rparr>" 1700000000]
      add_rating_404_or_append
      [OF demo_state_simps, of "\<lparr>userId = 3, movieId = 2, rating = 4, timestamp = None\<rparr>" 1700000000]
      add_rating_404_or_append
      [OF demo_state_simps, of "\<lparr>userId = 3, movieId = 2, rating = 4, timestamp = Some 964982999\<rparr>" 1700000000]
      add_rating_404_or_append
      [OF demo_state_simps, of "\<lparr>userId = 3, movieId = 2, rating = 4, timestamp = Some 0\<rparr>" 1700000000]
    by (simp add: ids demo_state_def)
qed

text \<open>
  The guards of \<^verbatim>\<open>add_rating\<close> outside the two loaded tables: without a rating
  table the answer is 500 whatever the movie, and without a movie table the
  existence check is skipped and the row is appended.
\<close>

lemma add_rating_without_ratings:
  "ratings_df st = None \<Longrightarrow> add_rating now st r = (Inl (HTTPException 500), st)"
  by (simp add: add_rating_def)

lemma add_rating_without_movies:
  "movies_df st = None \<Longrightarrow> ratings_df st = Some rs \<Longrightarrow>
   add_rating now st r =
     (Inr (new_rating now r), st\<lparr>ratings_df := Some (rs @ [new_rating now r])\<rparr>)"
  by (simp add: add_rating_def)

text \<open>
  Claim C5, as the source has it. A rating value outside \<open>[0.5, 5.0]\<close> is
  refused by the validation of the request body, before the handler, and
  the state stays as it was. The identifiers are not range-checked: with both
  tables loaded, a movieId (negative or not) that the movie table does not
  hold is refused with 404 and the state stays as it was, and every other
  request appends to the rating table one row with exactly the submitted
  userId, movieId and rating.
\<close>

theorem post_ratings_validation:
  "(rating body < 0.5 \<or> 5 < rating body \<longrightarrow>
      post_ratings now st body = (Inl ValidationError, st))
   \<and> (0.5 \<le> rating body \<and> rating body \<le> 5 \<and> movies_df st = Some ms \<and> ratings_df st = Some rs \<longrightarrow>
        (if movieId body \<in> set (map m_movieId ms)
         then post_ratings now st body =
              (Inr \<lparr>r_userId = userId body, r_movieId = movieId body, r_rating = rating body,
                     r_timestamp = (case timestamp body of None \<Rightarrow> now
                                    | Some t \<Rightarrow> if t = 0 then now else t)\<rparr>,
               st\<lparr>ratings_df := Some (rs @
                 [\<lparr>r_userId = userId body, r_movieId = movieId body, r_rating = rating body,
                    r_timestamp = (case timestamp body of None \<Rightarrow> now
                                   | Some t \<Rightarrow> if t = 0 then now else t)\<rparr>])\<rparr>)
         else post_ratings now st body = (Inl (HTTPException 404), st)))"
  by (auto simp: post_ratings_def Rating_validate_def add_rating_def new_rating_def movie_exists_def)

theorem post_ratings_validation_witness:
  "post_ratings 1700000000 demo_state
      \<lparr>userId = 3, movieId = 1, rating = 7, timestamp = None\<rparr>
     = (Inl ValidationError, demo_state)
   \<and> post_ratings 1700000000 demo_state
      \<lparr>userId = 3, movieId = - 5, rating = 4, timestamp = None\<rparr>
     = (Inl (HTTPException 404), demo_state)
   \<and> post_ratings 1700000000 demo_state
      \<lparr>userId = 3, movieId = 2, rating = 4, timestamp = None\<rparr>
     = (Inr \<lparr>r_userId = 3, r_movieId = 2, r_rating = 4, r_timestamp = 1700000000\<rparr>,
        \<lparr>movies_df = Some demo_movies, ratings_df = Some (demo_ratings @
          [\<lparr>r_userId = 3, r_movieId = 2, r_rating = 4, r_timestamp = 1700000000\<rparr>])\<rparr>)"
proof -
  have ids: "map m_movieId demo_movies = [1, 2]" by (simp add: demo_movies_def)
  show ?thesis
    using post_ratings_validation
      [of "\<lparr>userId = 3, movieId = 1, rating = 7, timestamp = None\<rparr>"
          1700000000 demo_state demo_movies demo_ratings]
      post_ratings_validation
      [of "\<lparr>userId = 3, movieId = - 5, rating = 4, timestamp = None\<rparr>"
          1700000000 demo_state demo_movies demo_ratings]
      post_ratings_validation
      [of "\<lparr>userId = 3, movieId = 2, rating = 4, timestamp = None\<rparr>"
          1700000000 demo_state demo_movies demo_ratings]
    by (simp add: ids demo_state_def)
qed

text \<open>
  The counterexample to claim C5 as stated: a rating with the negative userId
  \<open>-1\<close> for a known movie raises nothing and is appended to the rating table.
\<close>

theorem post_ratings_accepts_negative_userId:
  "userId \<lparr>userId = - 1, movieId = 1, rating = 4, timestamp = None\<rparr> < 0
   \<and> post_ratings 1700000000 demo_state
        \<lparr>userId = - 1, movieId = 1, rating = 4, timestamp = None\<rparr>
     = (Inr \<lparr>r_userId = - 1, r_movieId = 1, r_rating = 4, r_timestamp = 1700000000\<rparr>,
        \<lparr>movies_df = Some demo_movies,
          ratings_df = Some (demo_ratings @
            [\<lparr>r_userId = - 1, r_movieId = 1, r_rating = 4, r_timestamp = 1700000000\<rparr>])\<rparr>)"
  by (simp add: post_ratings_def Rating_validate_def add_rating_def new_rating_def demo_state_def
        movie_exists_def demo_movies_def)

section \<open>Properties of the simulated recommendations\<close>

lemma counter_rng_simps:
  "np_seed counter_rng s = s"
  "np_permutation counter_rng n g = (if even g then [0..<n] else rev [0..<n], Suc g)"
  "np_random_sample counter_rng g = (real (g div 4 mod 4) / 4, Suc g)"
  "np_randint counter_rng n g = (g mod n, Suc g)"
  by (simp_all add: counter_rng_def)


lemmas run_simps =
  get_user_recommendations_def recommendations_unsorted_def demo_state_def demo_movies_def
  DataFrame_sample_def counter_rng_simps Recommendation_validate_def reasons_def
  sort_by_score_desc_def

subsection \<open>The loop and the sample\<close>


lemma simulate_movieIds:
  "simulate_recommendations R ms g = (Inr recs, g') \<Longrightarrow>
   map rec_movieId recs = map m_movieId ms"
proof (induction ms arbitrary: g recs g')
  case Nil
  then show ?case by simp
next
  case (Cons m ms)
  then show ?case
    by (auto simp: Recommendation_validate_def
        split: prod.splits sum.splits option.splits if_splits)
qed


lemma set_DataFrame_sample:
  assumes "np_random_ok R"
  shows "set (fst (DataFrame_sample R k rows g)) \<subseteq> set rows"
proof -
  obtain p g' where p: "np_permutation R (length rows) g = (p, g')"
    by (cases "np_permutation R (length rows) g")
  from assms have "set (fst (np_permutation R (length rows) g)) = {0..<length rows}"
    by (simp add: np_random_ok_def)
  with p have "set p = {0..<length rows}" by simp
  then have "\<And>i. i \<in> set (take k p) \<Longrightarrow> i < length rows"
    by (metis atLeastLessThan_iff in_set_takeD)
  then show ?thesis
    using p by (auto simp: DataFrame_sample_def)
qed

lemma length_DataFrame_sample_exact:
  assumes "np_random_ok R" and "k \<le> length rows"
  shows "length (fst (DataFrame_sample R k rows g)) = k"
proof -
  from assms(1) have "length (fst (np_permutation R (length rows) g)) = length rows"
    by (simp add: np_random_ok_def)
  with assms(2) show ?thesis
    by (cases "np_permutation R (length rows) g") (simp add: DataFrame_sample_def)
qed

lemma simulate_total:
  assumes "np_random_ok R" and "list_all (\<lambda>m. m_title m \<noteq> None) ms"
  shows "\<exists>recs g'. simulate_recommendations R ms g = (Inr recs, g')"
  using assms(2)
proof (induction ms arbitrary: g)
  case Nil
  then show ?case by simp
next
  case (Cons m ms)
  obtain u g1 where u: "np_random_sample R g = (u, g1)"
    by (cases "np_random_sample R g")
  obtain i g2 where i: "np_randint R (length reasons) g1 = (i, g2)"
    by (cases "np_randint R (length reasons) g1")
  from assms(1) have "0 \<le> fst (np_random_sample R g) \<and> fst (np_random_sample R g) < 1"
    by (simp add: np_random_ok_def)
  with u have range: "0 \<le> u" "u < 1" by simp_all
  from Cons.prems obtain t where t: "m_title m = Some t" by auto
  from Cons.prems have "list_all (\<lambda>m. m_title m \<noteq> None) ms" by simp
  from Cons.IH [OF this] obtain recs g3 where
    "simulate_recommendations R ms g2 = (Inr recs, g3)" by blast
  with u i t range show ?case
    by (simp add: Recommendation_validate_def)
qed



lemma get_user_recommendations_Inr:
  "fst (get_user_recommendations R g st user_id n) = Inr recs \<longleftrightarrow>
   (\<exists>us. fst (recommendations_unsorted R g st user_id n) = Inr us
        \<and> recs = sort_by_score_desc us)"
  by (auto simp: get_user_recommendations_def split: prod.splits sum.splits)

text \<open>
  With a generator that keeps numpy's guarantees, a loaded catalogue without
  missing titles, a valid \<open>n\<close> and a user id that \<^verbatim>\<open>np.random.seed\<close> accepts,
  the endpoint returns \<open>min n (size of the catalogue)\<close> recommendations,
  whether or not the user has ratings.
\<close>

lemma get_user_recommendations_total:
  assumes "np_random_ok R" and "movies_df st = Some ms"
    and "list_all (\<lambda>m. m_title m \<noteq> None) ms"
    and "1 \<le> n" and "n \<le> 50" and "0 \<le> user_id" and "user_id < 2 ^ 32"
  shows "\<exists>recs. fst (get_user_recommendations R g st user_id n) = Inr recs
            \<and> length recs = min (nat n) (length ms)"
proof -
  let ?k = "min (nat n) (length ms)"
  obtain smp g1 where smp: "DataFrame_sample R ?k ms (np_seed R (nat user_id)) = (smp, g1)"
    by (cases "DataFrame_sample R ?k ms (np_seed R (nat user_id))")
  have "set smp \<subseteq> set ms"
    using set_DataFrame_sample [OF assms(1), of ?k ms "np_seed R (nat user_id)"] smp by simp
  with assms(3) have "list_all (\<lambda>m. m_title m \<noteq> None) smp"
    by (auto simp: list_all_iff)
  from simulate_total [OF assms(1) this] obtain recs g' where
    sim: "simulate_recommendations R smp g1 = (Inr recs, g')" by blast
  have "length smp = ?k"
    using length_DataFrame_sample_exact [OF assms(1), of ?k ms "np_seed R (nat user_id)"] smp
    by simp
  moreover have "length (map rec_movieId recs) = length (map m_movieId smp)"
    using sim by (simp only: simulate_movieIds)
  ultimately have len: "length recs = ?k" by simp
  from assms(2,4-7) smp sim
  have "fst (get_user_recommendations R g st user_id n) = Inr (sort_by_score_desc recs)"
    by (simp add: get_user_recommendations_def recommendations_unsorted_def)
  with len show ?thesis by (simp add: sort_by_score_desc_def)
qed

subsection \<open>Runs on the demonstration catalogue\<close>



subsection \<open>Score range\<close>








subsection \<open>Order and length\<close>





text \<open>
  The sort compares scores only. Entries that share a score stay in the order
  in which the loop produced them, which is the order of the sample.
\<close>

lemma recommendations_ties_keep_sample_order:
  assumes "fst (get_user_recommendations R g st user_id n) = Inr recs"
  shows "\<exists>us. fst (recommendations_unsorted R g st user_id n) = Inr us
           \<and> (\<forall>k. filter (\<lambda>r. score r = k) recs = filter (\<lambda>r. score r = k) us)"
proof -
  from assms obtain us where us: "fst (recommendations_unsorted R g st user_id n) = Inr us"
    and recs: "recs = sort_key (\<lambda>r. - score r) us"
    by (auto simp: get_user_recommendations_Inr sort_by_score_desc_def)
  have "filter (\<lambda>r. score r = k) recs = filter (\<lambda>r. score r = k) us" for k
  proof -
    have "filter (\<lambda>r. - score r = - k) (sort_key (\<lambda>r. - score r) us)
        = filter (\<lambda>r. - score r = - k) us"
      by (rule sort_key_stable)
    then show ?thesis by (simp add: recs)
  qed
  with us show ?thesis by blast
qed




subsection \<open>Dependence on the generator and on the ratings\<close>

text \<open>
  The API seeds the generator with the user id before it draws anything, so
  its answer does not depend on the state the generator was in.
\<close>

lemma get_user_recommendations_seeded:
  "fst (get_user_recommendations R g st user_id n)
     = fst (get_user_recommendations R g' st user_id n)"
  by (simp add: get_user_recommendations_def recommendations_unsorted_def
      split: prod.splits sum.splits option.splits)

text \<open>
  Claim C1 at its failing input. The dashboard's \<^verbatim>\<open>get_recommendations\<close> draws
  from the generator as it finds it: the same request on the same catalogue
  gives one list from generator state 0 and another from state 1.
\<close>

theorem get_recommendations_unseeded:
  "fst (get_recommendations counter_rng 0 (Some demo_movies) 1)
     = [\<lparr>ar_title = Some ''Toy Story (1995)'', ar_genres = ''Adventure|Comedy'',
          ar_score = 7 / 10, ar_reason = ''Base sur vos preferences''\<rparr>]
   \<and> fst (get_recommendations counter_rng 1 (Some demo_movies) 1)
     = [\<lparr>ar_title = Some ''Heat (1995)'', ar_genres = ''Action|Thriller'',
          ar_score = 7 / 10, ar_reason = ''Base sur vos preferences''\<rparr>]"
  by (simp add: get_recommendations_def DataFrame_sample_def counter_rng_simps np_uniform_def
      demo_movies_def)

text \<open>The rating table has no part in the answer of the API.\<close>

lemma get_user_recommendations_ignores_ratings:
  "movies_df st = movies_df st' \<Longrightarrow>
   get_user_recommendations R g st user_id n = get_user_recommendations R g st' user_id n"
  by (simp add: get_user_recommendations_def recommendations_unsorted_def)

text \<open>
  Claim C2 at its failing input. User 7 has no rating in either of two rating
  tables over the same catalogue; movie 1 is the most rated in the first and
  movie 2 in the second, yet the endpoint answers both alike, so at least one
  answer is not the most rated movie. With the counter generator the answer
  on the first table is movie 2.
\<close>

theorem new_user_not_most_rated:
  "list_all (\<lambda>r. r_userId r \<noteq> 7) demo_ratings
   \<and> list_all (\<lambda>r. r_userId r \<noteq> 7) other_ratings
   \<and> spec_most_rated demo_ratings 1 = [1]
   \<and> spec_most_rated other_ratings 1 = [2]
   \<and> get_user_recommendations R g \<lparr>movies_df = Some demo_movies, ratings_df = Some demo_ratings\<rparr> 7 1
     = get_user_recommendations R g \<lparr>movies_df = Some demo_movies, ratings_df = Some other_ratings\<rparr> 7 1
   \<and> \<not> (map_sum id (map rec_movieId)
           (fst (get_user_recommendations R g
              \<lparr>movies_df = Some demo_movies, ratings_df = Some demo_ratings\<rparr> 7 1))
          = Inr (spec_most_rated demo_ratings 1)
        \<and> map_sum id (map rec_movieId)
           (fst (get_user_recommendations R g
              \<lparr>movies_df = Some demo_movies, ratings_df = Some other_ratings\<rparr> 7 1))
          = Inr (spec_most_rated other_ratings 1))
   \<and> map_sum id (map rec_movieId) (fst (get_user_recommendations counter_rng 0 demo_state 7 1))
     = Inr [2]"
proof -
  have absent: "list_all (\<lambda>r. r_userId r \<noteq> 7) demo_ratings"
    "list_all (\<lambda>r. r_userId r \<noteq> 7) other_ratings"
    by (simp_all add: demo_ratings_def other_ratings_def)
  have top: "spec_most_rated demo_ratings 1 = [1]" "spec_most_rated other_ratings 1 = [2]"
    by (simp_all add: spec_most_rated_def demo_ratings_def other_ratings_def)
  have same: "get_user_recommendations R g
        \<lparr>movies_df = Some demo_movies, ratings_df = Some demo_ratings\<rparr> 7 1
     = get_user_recommendations R g
        \<lparr>movies_df = Some demo_movies, ratings_df = Some other_ratings\<rparr> 7 1"
    by (simp add: get_user_recommendations_def recommendations_unsorted_def)
  have run: "map_sum id (map rec_movieId)
        (fst (get_user_recommendations counter_rng 0 demo_state 7 1)) = Inr [2]"
    by (simp add: run_simps)
  from absent top same run show ?thesis by simp
qed

text \<open>
  Claim C6 at its failing input. User \<open>-1\<close> has no rating, and the request
  for its recommendations ends in the \<^verbatim>\<open>ValueError\<close> of \<^verbatim>\<open>np.random.seed\<close>,
  whatever the generator.
\<close>

theorem negative_user_id_raises:
  "list_all (\<lambda>r. r_userId r \<noteq> - 1) demo_ratings
   \<and> fst (get_user_recommendations R g demo_state (- 1) 10) = Inl ValueError"
  by (simp add: get_user_recommendations_def recommendations_unsorted_def demo_state_def
      demo_ratings_def)

section \<open>Properties of the title search\<close>

subsection \<open>Queries without pattern operators\<close>

lemma ascii_lower_cases:
  "ascii_lower c = c \<or> ascii_lower c \<in> set ''abcdefghijklmnopqrstuvwxyz''"
proof (cases "map_of (zip ''ABCDEFGHIJKLMNOPQRSTUVWXYZ'' ''abcdefghijklmnopqrstuvwxyz'') c")
  case None
  then show ?thesis by (simp add: ascii_lower_def)
next
  case (Some l)
  then have "(c, l) \<in> set (zip ''ABCDEFGHIJKLMNOPQRSTUVWXYZ'' ''abcdefghijklmnopqrstuvwxyz'')"
    by (rule map_of_SomeD)
  then have "l \<in> set ''abcdefghijklmnopqrstuvwxyz''"
    by (rule set_zip_rightD)
  with Some show ?thesis by (simp add: ascii_lower_def)
qed

lemma ascii_lower_dot: "ascii_lower c = CHR ''.'' \<longleftrightarrow> c = CHR ''.''"
proof
  assume a: "ascii_lower c = CHR ''.''"
  from ascii_lower_cases [of c] show "c = CHR ''.''"
  proof
    assume "ascii_lower c = c"
    with a show ?thesis by simp
  next
    assume "ascii_lower c \<in> set ''abcdefghijklmnopqrstuvwxyz''"
    with a show ?thesis by simp
  qed
next
  assume "c = CHR ''.''"
  then show "ascii_lower c = CHR ''.''" by (simp add: ascii_lower_def)
qed

lemma match_here_prefix:
  "CHR ''.'' \<notin> set ps \<Longrightarrow> match_here ps s = prefix ps s"
  by (induction ps s rule: match_here.induct) auto

lemma re_search_sublist:
  "CHR ''.'' \<notin> set ps \<Longrightarrow> re_search ps s = sublist ps s"
proof (induction s)
  case Nil
  then show ?case by (simp add: match_here_prefix)
next
  case (Cons c cs)
  then show ?case by (simp add: match_here_prefix sublist_Cons_right)
qed

lemma paren_depth_no_parens:
  "CHR ''('' \<notin> set q \<Longrightarrow> CHR '')'' \<notin> set q \<Longrightarrow> paren_depth d q = Some d"
  by (induction q arbitrary: d) auto

lemma select_rows_map: "select_rows rows (map f rows) = filter f rows"
  by (induction rows) (auto simp: select_rows_def)

lemma str_contains_plain:
  assumes "plain_query query"
  shows "str_contains re_full (map m_title ms) query = Inr (map (spec_title_contains query) ms)"
proof -
  from assms have ops: "\<not> list_ex (\<lambda>c. c \<in> set re_operators) query"
    and dot: "CHR ''.'' \<notin> set query" and lp: "CHR ''('' \<notin> set query" and rp: "CHR '')'' \<notin> set query"
    by (auto simp: plain_query_def list_ex_iff)
  from lp rp have depth: "paren_depth 0 query = Some 0" by (rule paren_depth_no_parens)
  from lp rp have flt: "filter (\<lambda>c. c \<noteq> CHR ''('' \<and> c \<noteq> CHR '')'') query = query"
    by (auto intro: filter_True)
  have "CHR ''.'' \<notin> set (map ascii_lower query)"
  proof
    assume "CHR ''.'' \<in> set (map ascii_lower query)"
    then obtain c where "c \<in> set query" "ascii_lower c = CHR ''.''" by auto
    with dot show False by (simp add: ascii_lower_dot)
  qed
  then have srch: "\<And>s. re_search (map ascii_lower query) s = sublist (map ascii_lower query) s"
    by (rule re_search_sublist)
  have comp: "re_compile_ignorecase re_full query
      = Inr (\<lambda>s. sublist (map ascii_lower query) (map ascii_lower s))"
    using ops depth by (simp add: re_compile_ignorecase_def flt srch)
  have "\<And>m. (case m_title m of None \<Rightarrow> False
               | Some s \<Rightarrow> sublist (map ascii_lower query) (map ascii_lower s))
             = spec_title_contains query m"
    by (simp add: spec_title_contains_def)
  then show ?thesis
    by (simp add: str_contains_def comp comp_def)
qed

lemma build_movies_titled:
  "list_all (\<lambda>m. m_title m \<noteq> None) ms \<Longrightarrow>
   \<exists>xs. build_movies rdf ms = Inr xs \<and> map movie_movieId xs = map m_movieId ms
        \<and> map (Some \<circ> movie_title) xs = map m_title ms"
  by (induction ms) (auto simp: Movie_validate_def)

text \<open>
  For a query that holds none of the characters \<^verbatim>\<open>. ^ $ * + ? { } [ ] \ | ( )\<close>
  the search of the API returns the movies whose title contains the query,
  letter case apart, in catalogue order and cut at \<open>limit\<close>; rows without a
  title are not among them.
\<close>

lemma search_movies_plain:
  assumes "plain_query query" and "query \<noteq> []" and "1 \<le> limit" and "limit \<le> 50"
    and "movies_df st = Some ms"
  shows "\<exists>xs. search_movies re_full st query limit = Inr xs
           \<and> map movie_movieId xs = map m_movieId (take (nat limit) (filter (spec_title_contains query) ms))
           \<and> map (Some \<circ> movie_title) xs = map m_title (take (nat limit) (filter (spec_title_contains query) ms))"
proof -
  let ?hits = "take (nat limit) (filter (spec_title_contains query) ms)"
  have "list_all (\<lambda>m. m_title m \<noteq> None) ?hits"
    by (auto simp: list_all_iff spec_title_contains_def dest!: in_set_takeD split: option.splits)
  from build_movies_titled [OF this, of "ratings_df st"] obtain xs where
    "build_movies (ratings_df st) ?hits = Inr xs" "map movie_movieId xs = map m_movieId ?hits"
    "map (Some \<circ> movie_title) xs = map m_title ?hits" by blast
  then have "build_movies (ratings_df st) ?hits = Inr xs
      \<and> map movie_movieId xs = map m_movieId ?hits
      \<and> map (Some \<circ> movie_title) xs = map m_title ?hits" by simp
  moreover have "search_movies re_full st query limit = build_movies (ratings_df st) ?hits"
    using assms(2-5) by (simp add: search_movies_def str_contains_plain [OF assms(1)] select_rows_map)
  ultimately show ?thesis by simp
qed

lemmas search_simps =
  search_movies_def app_search_movies_def demo_state_def demo_movies_def str_contains_def
  re_compile_ignorecase_def re_operators_def ascii_lower_def select_rows_def

lemma plain_toy: "plain_query ''toy''"
  by (simp add: plain_query_def re_operators_def)

lemma search_movies_plain_run:
  "map_sum id (map movie_movieId) (search_movies re_full demo_state ''toy'' 10) = Inr [1]"
  using search_movies_plain [OF plain_toy, of 10 demo_state demo_movies re_full]
  by (auto simp: demo_state_def demo_movies_def spec_title_contains_def ascii_lower_def
      sublist_code prefix_code)

subsection \<open>Queries with pattern operators\<close>

text \<open>
  Claim C10 at its failing inputs. The title of movie 1 contains the query
  \<^verbatim>\<open>Toy Story (1995)\<close>, yet neither search returns the movie: the parentheses
  of the query are read as a group, and the pattern asks for
  \<^verbatim>\<open>Toy Story 1995\<close>. The query \<^verbatim>\<open>(\<close> does not compile, and both searches
  raise \<^verbatim>\<open>re.error\<close>.
\<close>

theorem search_reads_query_as_pattern:
  "spec_title_contains ''Toy Story (1995)''
     \<lparr>m_movieId = 1, m_title = Some ''Toy Story (1995)'', m_genres = ''Adventure|Comedy''\<rparr>
   \<and> search_movies re_full demo_state ''Toy Story (1995)'' 10 = Inr []
   \<and> app_search_movies re_full (Some demo_movies) ''Toy Story (1995)'' = Inr []
   \<and> search_movies re_full demo_state ''('' 10 = Inl ReError
   \<and> app_search_movies re_full (Some demo_movies) ''('' = Inl ReError"
proof -
  have "spec_title_contains ''Toy Story (1995)''
     \<lparr>m_movieId = 1, m_title = Some ''Toy Story (1995)'', m_genres = ''Adventure|Comedy''\<rparr>"
    by (simp add: spec_title_contains_def)
  moreover have "search_movies re_full demo_state ''Toy Story (1995)'' 10 = Inr []"
    by (simp add: search_simps)
  moreover have "app_search_movies re_full (Some demo_movies) ''Toy Story (1995)'' = Inr []"
    by (simp add: search_simps)
  moreover have "search_movies re_full demo_state ''('' 10 = Inl ReError"
    by (simp add: search_simps)
  moreover have "app_search_movies re_full (Some demo_movies) ''('' = Inl ReError"
    by (simp add: search_simps)
  ultimately show ?thesis by simp
qed

text \<open>The query \<^verbatim>\<open>.\<close> returns every movie that has a title.\<close>

lemma search_dot:
  "map_sum id (map movie_movieId) (search_movies re_full demo_state ''.'' 10) = Inr [1, 2]"
  by (simp add: search_simps Movie_validate_def)

section \<open>Properties of \<^verbatim>\<open>recommendSimilar\<close>\<close>

text \<open>
  Claim C8. For a movie \<open>m\<close> of the fitted item index, \<^verbatim>\<open>recommendSimilar\<close>
  returns a list without \<open>m\<close>, made of indexed items, of length
  \<open>min n (number of other items)\<close>: at most \<open>n\<close> entries, and every other
  item when there are no more than \<open>n\<close> of them. For a movie outside the
  index it fails with \<^verbatim>\<open>UnknownItemError\<close>.
\<close>

theorem recommendSimilar_excludes_item:
  "(m \<in> set (cb_items s) \<longrightarrow>
      (\<exists>recs. recommendSimilar (CB_Fitted s) m n = Inr recs
         \<and> m \<notin> fst ` set recs
         \<and> fst ` set recs \<subseteq> set (cb_items s)
         \<and> length recs = min n (length (filter (\<lambda>i. i \<noteq> m) (cb_items s)))
         \<and> (length (filter (\<lambda>i. i \<noteq> m) (cb_items s)) \<le> n \<longrightarrow>
              fst ` set recs = set (cb_items s) - {m})))
   \<and> (m \<notin> set (cb_items s) \<longrightarrow> recommendSimilar (CB_Fitted s) m n = Inl UnknownItemError)"
proof (intro conjI impI)
  assume known: "m \<in> set (cb_items s)"
  define cands where
    "cands = map (\<lambda>i. (i, cb_similarity s m i)) (filter (\<lambda>i. i \<noteq> m) (cb_items s))"
  define ranked where "ranked = sort_key (\<lambda>(i, sim). (- sim, i)) cands"
  define recs where "recs = take n ranked"
  have r: "recommendSimilar (CB_Fitted s) m n = Inr recs"
    using known by (simp add: recommendSimilar_def recs_def ranked_def cands_def)
  have "map fst cands = filter (\<lambda>i. i \<noteq> m) (cb_items s)"
    by (simp add: cands_def comp_def)
  then have "set (map fst cands) = set (filter (\<lambda>i. i \<noteq> m) (cb_items s))" by simp
  then have ids: "fst ` set ranked = set (cb_items s) - {m}"
    by (auto simp: ranked_def)
  have "set recs \<subseteq> set ranked"
    unfolding recs_def by (rule set_take_subset)
  then have "fst ` set recs \<subseteq> fst ` set ranked" by (rule image_mono)
  with ids have excl: "m \<notin> fst ` set recs" and sub: "fst ` set recs \<subseteq> set (cb_items s)"
    by auto
  have len: "length recs = min n (length (filter (\<lambda>i. i \<noteq> m) (cb_items s)))"
    by (simp add: recs_def ranked_def cands_def)
  have all: "fst ` set recs = set (cb_items s) - {m}"
    if "length (filter (\<lambda>i. i \<noteq> m) (cb_items s)) \<le> n"
  proof -
    from that have "length ranked \<le> n" by (simp add: ranked_def cands_def)
    then have "recs = ranked" by (simp add: recs_def)
    with ids show ?thesis by simp
  qed
  from r excl sub len all
  show "\<exists>recs. recommendSimilar (CB_Fitted s) m n = Inr recs
         \<and> m \<notin> fst ` set recs
         \<and> fst ` set recs \<subseteq> set (cb_items s)
         \<and> length recs = min n (length (filter (\<lambda>i. i \<noteq> m) (cb_items s)))
         \<and> (length (filter (\<lambda>i. i \<noteq> m) (cb_items s)) \<le> n \<longrightarrow>
              fst ` set recs = set (cb_items s) - {m})"
    by blast
next
  assume "m \<notin> set (cb_items s)"
  then show "recommendSimilar (CB_Fitted s) m n = Inl UnknownItemError"
    by (simp add: recommendSimilar_def)
qed

theorem recommendSimilar_excludes_item_witness:
  "recommendSimilar (CB_Fitted demo_cb) 1 5 = Inr [(3, 1 / 2), (2, 1 / 4)]
   \<and> recommendSimilar (CB_Fitted demo_cb) 1 1 = Inr [(3, 1 / 2)]
   \<and> recommendSimilar (CB_Fitted demo_cb) 9 5 = Inl UnknownItemError"
  using recommendSimilar_excludes_item [of 1 demo_cb 5]
    recommendSimilar_excludes_item [of 9 demo_cb 5]
  by (simp add: recommendSimilar_def demo_cb_def)

text \<open>The list is ranked by similarity, highest first, equal ones by ascending movieId.\<close>

lemma recommendSimilar_ranked:
  "recommendSimilar (CB_Fitted s) m n = Inr recs \<Longrightarrow>
   sorted (map (\<lambda>(i, sim). (- sim, i)) recs)"
proof -
  assume "recommendSimilar (CB_Fitted s) m n = Inr recs"
  then obtain cands where recs: "recs = take n (sort_key (\<lambda>(i, sim). (- sim, i)) cands)"
    by (auto simp: recommendSimilar_def split: if_splits)
  have "sorted (map (\<lambda>(i, sim). (- sim, i)) (sort_key (\<lambda>(i, sim). (- sim, i)) cands))"
    by (rule sorted_sort_key)
  then have "sorted (take n (map (\<lambda>(i, sim). (- sim, i))
      (sort_key (\<lambda>(i, sim). (- sim, i)) cands)))"
    by (rule sorted_wrt_take)
  then show ?thesis by (simp add: recs take_map)
qed

lemma recommendSimilar_unfit: "recommendSimilar CB_Unfit m n = Inl NotFittedError"
  by (simp add: recommendSimilar_def)

end
